theory Spec2Isabelle
  imports Complex_Main "HOL-Library.Stream"
begin

section \<open>The Python runtime the notebook relies on\<close>

text \<open>
  The notebook computes with Python floats. They are modelled as the reals: rounding,
  overflow and NaN are outside the model, every other effect of the code is inside it.
  An exception is a value of type \<open>error\<close>; a function that can raise returns
  \<open>error + 'a\<close> with \<open>Inl\<close> for the exception.

  \<^item> \<open>ValueError\<close> is the "math domain error" of \<open>math.sqrt\<close> and \<open>math.log\<close>;
  \<^item> \<open>ZeroDivisionError\<close> is raised by \<open>/\<close> on a zero divisor;
  \<^item> \<open>UnboundLocalError\<close> is raised when a local variable is read before any
    assignment (the loop variable \<open>log_asset_next\<close> after a loop that never ran).
\<close>

datatype error = ValueError | ZeroDivisionError | UnboundLocalError

definition math_sqrt :: "real \<Rightarrow> error + real" where
  "math_sqrt x = (if x < 0 then Inl ValueError else Inr (sqrt x))"

definition math_log :: "real \<Rightarrow> error + real" where
  "math_log x = (if x \<le> 0 then Inl ValueError else Inr (ln x))"

definition py_div :: "real \<Rightarrow> real \<Rightarrow> error + real" where
  "py_div a b = (if b = 0 then Inl ZeroDivisionError else Inr (a / b))"

text \<open>
  The source of standard normal draws, \<open>sc.randn()\<close>: each call returns the next
  draw of an infinite sequence and advances it. The sequence is the state of the
  generator, passed explicitly.
\<close>

type_synonym rng = "real stream"

definition sc_randn :: "rng \<Rightarrow> real \<times> rng" where
  "sc_randn g = (shd g, stl g)"

section \<open>Black-Scholes\<close>

text \<open>
  \<^verbatim>\<open>
  class BlackScholes:
      def __init__(self, mu, vol):
          self.mu = mu
          self.vol = vol

      def _simulate_increment(self, dt, randn):
          return (self.mu - 0.5 * self.vol * self.vol) * dt + self.vol * math.sqrt(dt) * randn

      def simulate_stock(self, spot, maturity, num_steps):
          dt = maturity / num_steps
          increment = sum(map(lambda x: self._simulate_increment(dt, sc.randn()), range(num_steps)))
          return spot * math.exp(increment)
  \<close>
  The drift field is named \<open>bs_mu\<close> here, \<open>mu\<close> being the field of \<open>heston\<close> below.
  \<open>sum\<close> adds the increments to 0 from left to right; each draw is taken before the
  call that uses it.
\<close>

record black_scholes =
  bs_mu :: real
  vol :: real

definition BlackScholes_init :: "real \<Rightarrow> real \<Rightarrow> error + black_scholes" where
  "BlackScholes_init mu' vol' = Inr \<lparr>bs_mu = mu', vol = vol'\<rparr>"

definition BlackScholes_simulate_increment :: "black_scholes \<Rightarrow> real \<Rightarrow> real \<Rightarrow> error + real" where
  "BlackScholes_simulate_increment self dt randn =
     (case math_sqrt dt of
        Inl e \<Rightarrow> Inl e
      | Inr sq \<Rightarrow> Inr ((bs_mu self - 0.5 * vol self * vol self) * dt + vol self * sq * randn))"

fun BlackScholes_sum_increments ::
  "black_scholes \<Rightarrow> real \<Rightarrow> nat \<Rightarrow> real \<Rightarrow> rng \<Rightarrow> (error + real) \<times> rng" where
  "BlackScholes_sum_increments self dt 0 acc g = (Inr acc, g)"
| "BlackScholes_sum_increments self dt (Suc n) acc g =
     (let (z, g1) = sc_randn g in
      case BlackScholes_simulate_increment self dt z of
        Inl e \<Rightarrow> (Inl e, g1)
      | Inr incr \<Rightarrow> BlackScholes_sum_increments self dt n (acc + incr) g1)"

definition BlackScholes_simulate_stock ::
  "black_scholes \<Rightarrow> real \<Rightarrow> real \<Rightarrow> int \<Rightarrow> rng \<Rightarrow> (error + real) \<times> black_scholes \<times> rng" where
  "BlackScholes_simulate_stock self spot maturity num_steps g =
     (case py_div maturity (of_int num_steps) of
        Inl e \<Rightarrow> (Inl e, self, g)
      | Inr dt \<Rightarrow>
          (case BlackScholes_sum_increments self dt (nat num_steps) 0 g of
             (Inl e, g') \<Rightarrow> (Inl e, self, g')
           | (Inr increment, g') \<Rightarrow> (Inr (spot * exp increment), self, g')))"

section \<open>The Monte Carlo pricer\<close>

text \<open>
  \<^verbatim>\<open>
  def price_call_option(model, spot, strike, maturity, num_steps, num_paths):
      realisations = list(map(lambda x: max(model.simulate_stock(spot, maturity, num_steps) - strike, 0.0),
                              range(num_paths)))
      return np.average(realisations), 1.0 / math.sqrt(num_paths) * np.std(realisations)
  \<close>
  \<open>model\<close> is any object with a \<open>simulate_stock\<close> method: the method is the parameter
  \<open>sim\<close>, which takes the object and the generator and returns them updated. An
  exception in a path ends the call.

  NumPy's \<open>average\<close> is the arithmetic mean and its \<open>std\<close> (with the default
  \<open>ddof = 0\<close>) the square root of the mean squared deviation from the mean. On an
  empty list NumPy returns NaN without raising; the pricer then raises in
  \<open>1.0 / math.sqrt(num_paths)\<close>, so that value is never returned.
\<close>

definition np_average :: "real list \<Rightarrow> real" where
  "np_average xs = sum_list xs / real (length xs)"

definition np_std :: "real list \<Rightarrow> real" where
  "np_std xs = sqrt (np_average (map (\<lambda>x. (x - np_average xs)\<^sup>2) xs))"

fun realisations ::
  "('m \<Rightarrow> real \<Rightarrow> real \<Rightarrow> int \<Rightarrow> rng \<Rightarrow> (error + real) \<times> 'm \<times> rng) \<Rightarrow>
   'm \<Rightarrow> real \<Rightarrow> real \<Rightarrow> real \<Rightarrow> int \<Rightarrow> nat \<Rightarrow> rng \<Rightarrow> (error + real list) \<times> 'm \<times> rng" where
  "realisations sim model spot strike maturity num_steps 0 g = (Inr [], model, g)"
| "realisations sim model spot strike maturity num_steps (Suc n) g =
     (case sim model spot maturity num_steps g of
        (Inl e, model1, g1) \<Rightarrow> (Inl e, model1, g1)
      | (Inr terminal, model1, g1) \<Rightarrow>
          (case realisations sim model1 spot strike maturity num_steps n g1 of
             (Inl e, model2, g2) \<Rightarrow> (Inl e, model2, g2)
           | (Inr rest, model2, g2) \<Rightarrow> (Inr (max (terminal - strike) 0 # rest), model2, g2)))"

definition price_call_option ::
  "('m \<Rightarrow> real \<Rightarrow> real \<Rightarrow> int \<Rightarrow> rng \<Rightarrow> (error + real) \<times> 'm \<times> rng) \<Rightarrow>
   'm \<Rightarrow> real \<Rightarrow> real \<Rightarrow> real \<Rightarrow> int \<Rightarrow> int \<Rightarrow> rng \<Rightarrow> (error + real \<times> real) \<times> 'm \<times> rng" where
  "price_call_option sim model spot strike maturity num_steps num_paths g =
     (case realisations sim model spot strike maturity num_steps (nat num_paths) g of
        (Inl e, model1, g1) \<Rightarrow> (Inl e, model1, g1)
      | (Inr rs, model1, g1) \<Rightarrow>
          (let average = np_average rs in
           case math_sqrt (of_int num_paths) of
             Inl e \<Rightarrow> (Inl e, model1, g1)
           | Inr sq \<Rightarrow>
               (case py_div 1 sq of
                  Inl e \<Rightarrow> (Inl e, model1, g1)
                | Inr w \<Rightarrow> (Inr (average, w * np_std rs), model1, g1))))"

text \<open>
  The specification describes the pricer in two passes: first it simulates
  \<open>num_paths\<close> terminal values with the model, then it applies the payoff
  \<open>max(terminal - strike, 0)\<close> to each of them. The next two definitions follow
  that description, to be compared with \<open>realisations\<close>, which follows the code.
\<close>

fun spec_terminal_values ::
  "('m \<Rightarrow> real \<Rightarrow> real \<Rightarrow> int \<Rightarrow> rng \<Rightarrow> (error + real) \<times> 'm \<times> rng) \<Rightarrow>
   'm \<Rightarrow> real \<Rightarrow> real \<Rightarrow> int \<Rightarrow> nat \<Rightarrow> rng \<Rightarrow> (error + real list) \<times> 'm \<times> rng" where
  "spec_terminal_values sim model spot maturity num_steps 0 g = (Inr [], model, g)"
| "spec_terminal_values sim model spot maturity num_steps (Suc n) g =
     (case sim model spot maturity num_steps g of
        (Inl e, model1, g1) \<Rightarrow> (Inl e, model1, g1)
      | (Inr terminal, model1, g1) \<Rightarrow>
          (case spec_terminal_values sim model1 spot maturity num_steps n g1 of
             (Inl e, model2, g2) \<Rightarrow> (Inl e, model2, g2)
           | (Inr rest, model2, g2) \<Rightarrow> (Inr (terminal # rest), model2, g2)))"

definition spec_payoff :: "real \<Rightarrow> real \<Rightarrow> real" where
  "spec_payoff strike terminal = max (terminal - strike) 0"

section \<open>The Heston model and its naive Euler scheme\<close>

text \<open>
  \<^verbatim>\<open>class Heston\<close>: the constructor stores its six arguments. Subclasses extend the
  record, so a method of \<open>Heston\<close> takes any \<open>'a heston_scheme\<close>.
\<close>

record heston =
  mu :: real
  kappa :: real
  theta :: real
  omega :: real
  rho :: real
  initial_variance :: real

definition Heston_init :: "real \<Rightarrow> real \<Rightarrow> real \<Rightarrow> real \<Rightarrow> real \<Rightarrow> real \<Rightarrow> error + heston" where
  "Heston_init mu' kappa' theta' omega' rho' initial_variance' =
     Inr \<lparr>mu = mu', kappa = kappa', theta = theta', omega = omega', rho = rho',
          initial_variance = initial_variance'\<rparr>"

text \<open>
  \<^verbatim>\<open>
  def _simulate_variance_next_step(self, var_prev, dt, randn):
      tmp = self.kappa * dt
      variance = (1.0 - tmp) * var_prev + tmp * self.theta
                 + self.omega * math.sqrt(var_prev * dt) * randn
      return variance
  \<close>
\<close>

definition Heston_simulate_variance_next_step ::
  "'a heston_scheme \<Rightarrow> real \<Rightarrow> real \<Rightarrow> real \<Rightarrow> error + real" where
  "Heston_simulate_variance_next_step self var_prev dt randn =
     (let tmp = kappa self * dt in
      case math_sqrt (var_prev * dt) of
        Inl e \<Rightarrow> Inl e
      | Inr sq \<Rightarrow>
          (let variance = (1 - tmp) * var_prev + tmp * theta self + omega self * sq * randn
           in Inr variance))"

text \<open>
  \<^verbatim>\<open>
  def _simulate_log_asset_next_step(self, log_asset_prev, var_prev, dt, randn):
      increment = (self.mu - 0.5 * var_prev) * dt + math.sqrt(var_prev * dt) * randn
      return log_asset_prev + increment
  \<close>
\<close>

definition Heston_simulate_log_asset_next_step ::
  "'a heston_scheme \<Rightarrow> real \<Rightarrow> real \<Rightarrow> real \<Rightarrow> real \<Rightarrow> error + real" where
  "Heston_simulate_log_asset_next_step self log_asset_prev var_prev dt randn =
     (case math_sqrt (var_prev * dt) of
        Inl e \<Rightarrow> Inl e
      | Inr sq \<Rightarrow>
          (let increment = (mu self - 0.5 * var_prev) * dt + sq * randn
           in Inr (log_asset_prev + increment)))"

text \<open>
  \<^verbatim>\<open>
  def simulate_stock(self, spot, maturity, num_steps):
      dt = maturity / num_steps
      var_prev = self.initial_variance
      log_asset_prev = math.log(spot)
      for i in range(num_steps):
          randn_vol = sc.randn()
          randn_spot = self.rho * randn_vol + math.sqrt(1.0 - self.rho * self.rho) * sc.randn()
          var_next = self._simulate_variance_next_step(var_prev, dt, randn_vol)
          log_asset_next = self._simulate_log_asset_next_step(log_asset_prev, var_prev, dt, randn_spot)
          log_asset_prev = log_asset_next
          var_prev = var_next
      return math.exp(log_asset_next)
  \<close>
  The two step methods are looked up on the object, so a subclass that overrides one of
  them changes what this loop calls: the loop takes them as the parameters \<open>vstep\<close> and
  \<open>lstep\<close>. A variance step may update the object (the absorption scheme counts), so
  \<open>vstep\<close> returns the object as well. In \<open>randn_spot\<close> Python evaluates the square
  root before the second draw, so a correlation outside \<open>[-1, 1]\<close> raises after one
  draw. The loop returns the last \<open>(log_asset_prev, var_prev)\<close>.
\<close>

fun Heston_simulate_loop ::
  "('a heston_scheme \<Rightarrow> real \<Rightarrow> real \<Rightarrow> real \<Rightarrow> (error + real) \<times> 'a heston_scheme) \<Rightarrow>
   ('a heston_scheme \<Rightarrow> real \<Rightarrow> real \<Rightarrow> real \<Rightarrow> real \<Rightarrow> error + real) \<Rightarrow>
   real \<Rightarrow> nat \<Rightarrow> 'a heston_scheme \<Rightarrow> real \<Rightarrow> real \<Rightarrow> rng \<Rightarrow>
   (error + real \<times> real) \<times> 'a heston_scheme \<times> rng" where
  "Heston_simulate_loop vstep lstep dt 0 self var_prev log_asset_prev g =
     (Inr (log_asset_prev, var_prev), self, g)"
| "Heston_simulate_loop vstep lstep dt (Suc n) self var_prev log_asset_prev g =
     (let (randn_vol, g1) = sc_randn g in
      case math_sqrt (1 - rho self * rho self) of
        Inl e \<Rightarrow> (Inl e, self, g1)
      | Inr sq \<Rightarrow>
          (let (z, g2) = sc_randn g1;
               randn_spot = rho self * randn_vol + sq * z
           in case vstep self var_prev dt randn_vol of
                (Inl e, self1) \<Rightarrow> (Inl e, self1, g2)
              | (Inr var_next, self1) \<Rightarrow>
                  (case lstep self1 log_asset_prev var_prev dt randn_spot of
                     Inl e \<Rightarrow> (Inl e, self1, g2)
                   | Inr log_asset_next \<Rightarrow>
                       Heston_simulate_loop vstep lstep dt n self1 var_next log_asset_next g2)))"

definition Heston_simulate_stock_with ::
  "('a heston_scheme \<Rightarrow> real \<Rightarrow> real \<Rightarrow> real \<Rightarrow> (error + real) \<times> 'a heston_scheme) \<Rightarrow>
   ('a heston_scheme \<Rightarrow> real \<Rightarrow> real \<Rightarrow> real \<Rightarrow> real \<Rightarrow> error + real) \<Rightarrow>
   'a heston_scheme \<Rightarrow> real \<Rightarrow> real \<Rightarrow> int \<Rightarrow> rng \<Rightarrow> (error + real) \<times> 'a heston_scheme \<times> rng" where
  "Heston_simulate_stock_with vstep lstep self spot maturity num_steps g =
     (case py_div maturity (of_int num_steps) of
        Inl e \<Rightarrow> (Inl e, self, g)
      | Inr dt \<Rightarrow>
          (case math_log spot of
             Inl e \<Rightarrow> (Inl e, self, g)
           | Inr log_asset_prev \<Rightarrow>
               (case Heston_simulate_loop vstep lstep dt (nat num_steps) self
                       (initial_variance self) log_asset_prev g of
                  (Inl e, self', g') \<Rightarrow> (Inl e, self', g')
                | (Inr (log_asset_next, var_next), self', g') \<Rightarrow>
                    if num_steps \<le> 0 then (Inl UnboundLocalError, self', g')
                    else (Inr (exp log_asset_next), self', g'))))"

text \<open>
  The naive scheme: both steps are those of \<open>Heston\<close>. A variance step that does not
  touch the object returns it as it was.
\<close>

definition without_update ::
  "('s \<Rightarrow> real \<Rightarrow> real \<Rightarrow> real \<Rightarrow> error + real) \<Rightarrow>
   's \<Rightarrow> real \<Rightarrow> real \<Rightarrow> real \<Rightarrow> (error + real) \<times> 's" where
  "without_update step self var_prev dt randn = (step self var_prev dt randn, self)"

definition Heston_simulate_stock ::
  "heston \<Rightarrow> real \<Rightarrow> real \<Rightarrow> int \<Rightarrow> rng \<Rightarrow> (error + real) \<times> heston \<times> rng" where
  "Heston_simulate_stock =
     Heston_simulate_stock_with (without_update Heston_simulate_variance_next_step)
       Heston_simulate_log_asset_next_step"

section \<open>The absorption scheme\<close>

text \<open>
  \<^verbatim>\<open>
  class Heston_Absorption(Heston):
      def __init__(self, mu, kappa, theta, omega, rho, initial_variance):
          super().__init__(mu, kappa, theta, omega, rho, initial_variance)
          self.number_of_negative_variances = 0

      def _simulate_variance_next_step(self, var_prev, dt, randn):
          if var_prev > 0.0:
              self.number_of_negative_variances = self.number_of_negative_variances + 1
          var_prev_adjusted = max(var_prev, 0.0)
          tmp = self.kappa * dt
          variance = (1.0 - tmp) * var_prev_adjusted + tmp * self.theta
                     + self.omega * math.sqrt(var_prev_adjusted * dt) * randn
          return max(variance, 0.0)
  \<close>
  The class overrides the variance step only; the log-asset step and \<open>simulate_stock\<close>
  are inherited from \<open>Heston\<close>.
\<close>

record heston_absorption = heston +
  number_of_negative_variances :: int

definition Heston_Absorption_init ::
  "real \<Rightarrow> real \<Rightarrow> real \<Rightarrow> real \<Rightarrow> real \<Rightarrow> real \<Rightarrow> error + heston_absorption" where
  "Heston_Absorption_init mu' kappa' theta' omega' rho' initial_variance' =
     Inr \<lparr>mu = mu', kappa = kappa', theta = theta', omega = omega', rho = rho',
          initial_variance = initial_variance', number_of_negative_variances = 0\<rparr>"

text \<open>
  The value of the local \<open>variance\<close> of the variance step, before the final \<open>max\<close>
  (for \<open>dt \<ge> 0\<close>, where the square root is defined).
\<close>

definition Heston_Absorption_raw_variance ::
  "heston_absorption \<Rightarrow> real \<Rightarrow> real \<Rightarrow> real \<Rightarrow> real" where
  "Heston_Absorption_raw_variance self var_prev dt randn =
     (let var_prev_adjusted = max var_prev 0;
          tmp = kappa self * dt
      in (1 - tmp) * var_prev_adjusted + tmp * theta self
         + omega self * sqrt (var_prev_adjusted * dt) * randn)"

definition Heston_Absorption_simulate_variance_next_step ::
  "heston_absorption \<Rightarrow> real \<Rightarrow> real \<Rightarrow> real \<Rightarrow> (error + real) \<times> heston_absorption" where
  "Heston_Absorption_simulate_variance_next_step self var_prev dt randn =
     (let self1 = (if var_prev > 0
                   then self\<lparr>number_of_negative_variances :=
                          number_of_negative_variances self + 1\<rparr>
                   else self);
          var_prev_adjusted = max var_prev 0;
          tmp = kappa self1 * dt
      in case math_sqrt (var_prev_adjusted * dt) of
           Inl e \<Rightarrow> (Inl e, self1)
         | Inr sq \<Rightarrow>
             (let variance = (1 - tmp) * var_prev_adjusted + tmp * theta self1
                             + omega self1 * sq * randn
              in (Inr (max variance 0), self1)))"

text \<open>The log-asset step of the class is the one it inherits.\<close>

definition Heston_Absorption_simulate_log_asset_next_step ::
  "heston_absorption \<Rightarrow> real \<Rightarrow> real \<Rightarrow> real \<Rightarrow> real \<Rightarrow> error + real" where
  "Heston_Absorption_simulate_log_asset_next_step = Heston_simulate_log_asset_next_step"

definition Heston_Absorption_simulate_stock ::
  "heston_absorption \<Rightarrow> real \<Rightarrow> real \<Rightarrow> int \<Rightarrow> rng \<Rightarrow> (error + real) \<times> heston_absorption \<times> rng" where
  "Heston_Absorption_simulate_stock =
     Heston_simulate_stock_with Heston_Absorption_simulate_variance_next_step
       Heston_Absorption_simulate_log_asset_next_step"

text \<open>
  The instance of the notebook:
  \<^verbatim>\<open>heston_abs = Heston_Absorption(mu=0.05, kappa=2.0, omega=1.0, rho=-0.3, theta=0.09, initial_variance=0.09)\<close>
\<close>

definition heston_abs :: heston_absorption where
  "heston_abs = \<lparr>mu = 5 / 100, kappa = 2, theta = 9 / 100, omega = 1, rho = - 3 / 10,
     initial_variance = 9 / 100, number_of_negative_variances = 0\<rparr>"

section \<open>The full truncation scheme\<close>

text \<open>
  \<^verbatim>\<open>
  class Heston_Full_Truncation(Heston):
      def _simulate_variance_next_step(self, var_prev, dt, randn):
          var_prev_adjusted = max(var_prev, 0.0)
          tmp = self.kappa * dt
          variance = var_prev - tmp * (var_prev_adjusted - self.theta)
                     + self.omega * math.sqrt(var_prev_adjusted * dt) * randn
          return variance

      def _simulate_log_asset_next_step(self, log_asset_prev, var_prev, dt, randn):
          var_prev_adjusted = max(var_prev, 0.0)
          increment = (self.mu - 0.5 * var_prev_adjusted) * dt
                      + math.sqrt(var_prev_adjusted * dt) * randn
          return log_asset_prev + increment
  \<close>
  The class adds no field; \<open>simulate_stock\<close> is inherited from \<open>Heston\<close>.
\<close>

definition Heston_Full_Truncation_simulate_variance_next_step ::
  "'a heston_scheme \<Rightarrow> real \<Rightarrow> real \<Rightarrow> real \<Rightarrow> error + real" where
  "Heston_Full_Truncation_simulate_variance_next_step self var_prev dt randn =
     (let var_prev_adjusted = max var_prev 0;
          tmp = kappa self * dt
      in case math_sqrt (var_prev_adjusted * dt) of
           Inl e \<Rightarrow> Inl e
         | Inr sq \<Rightarrow>
             (let variance = var_prev - tmp * (var_prev_adjusted - theta self)
                             + omega self * sq * randn
              in Inr variance))"

definition Heston_Full_Truncation_simulate_log_asset_next_step ::
  "'a heston_scheme \<Rightarrow> real \<Rightarrow> real \<Rightarrow> real \<Rightarrow> real \<Rightarrow> error + real" where
  "Heston_Full_Truncation_simulate_log_asset_next_step self log_asset_prev var_prev dt randn =
     (let var_prev_adjusted = max var_prev 0
      in case math_sqrt (var_prev_adjusted * dt) of
           Inl e \<Rightarrow> Inl e
         | Inr sq \<Rightarrow>
             (let increment = (mu self - 0.5 * var_prev_adjusted) * dt + sq * randn
              in Inr (log_asset_prev + increment)))"

text \<open>
  The instance of the notebook:
  \<^verbatim>\<open>heston_ft = Heston_Full_Truncation(mu=0.05, kappa=2.0, omega=1.0, rho=-0.3, theta=0.09, initial_variance=0.09)\<close>
\<close>

definition heston_ft :: heston where
  "heston_ft = \<lparr>mu = 5 / 100, kappa = 2, theta = 9 / 100, omega = 1, rho = - 3 / 10,
     initial_variance = 9 / 100\<rparr>"

definition Heston_Full_Truncation_simulate_stock ::
  "heston \<Rightarrow> real \<Rightarrow> real \<Rightarrow> int \<Rightarrow> rng \<Rightarrow> (error + real) \<times> heston \<times> rng" where
  "Heston_Full_Truncation_simulate_stock =
     Heston_simulate_stock_with
       (without_update Heston_Full_Truncation_simulate_variance_next_step)
       Heston_Full_Truncation_simulate_log_asset_next_step"

section \<open>Full truncation with correlation measurement\<close>

text \<open>
  \<^verbatim>\<open>class Heston_Full_Truncation_With_Correlation_Measurement(Heston_Full_Truncation)\<close>
  adds the number of paths simulated so far, the running average of the per-path
  correlation, and five moment accumulators that \<open>_clear_statistics\<close> resets.
\<close>

record heston_correlation = heston +
  num_paths :: int
  avg_correlation :: real
  log_asset_incr_first_mom :: real
  log_asset_incr_second_mom :: real
  var_incr_first_mom :: real
  var_incr_second_mom :: real
  cross_first_mom :: real

definition Correlation_clear_statistics :: "heston_correlation \<Rightarrow> heston_correlation" where
  "Correlation_clear_statistics self =
     self\<lparr>log_asset_incr_first_mom := 0, log_asset_incr_second_mom := 0,
          var_incr_first_mom := 0, var_incr_second_mom := 0, cross_first_mom := 0\<rparr>"

definition Correlation_init ::
  "real \<Rightarrow> real \<Rightarrow> real \<Rightarrow> real \<Rightarrow> real \<Rightarrow> real \<Rightarrow> error + heston_correlation" where
  "Correlation_init mu' kappa' theta' omega' rho' initial_variance' =
     Inr (Correlation_clear_statistics
       \<lparr>mu = mu', kappa = kappa', theta = theta', omega = omega', rho = rho',
        initial_variance = initial_variance', num_paths = 0, avg_correlation = 0,
        log_asset_incr_first_mom = 0, log_asset_incr_second_mom = 0,
        var_incr_first_mom = 0, var_incr_second_mom = 0, cross_first_mom = 0\<rparr>)"

text \<open>
  \<^verbatim>\<open>
  def _update_statistics(self, asset_incr, var_incr, num_steps):
      self.log_asset_incr_first_mom = self.log_asset_incr_first_mom + 1.0 / num_steps * asset_incr
      self.log_asset_incr_second_mom = self.log_asset_incr_second_mom + 1.0 / num_steps * asset_incr * asset_incr
      self.var_incr_first_mom = self.var_incr_first_mom + 1.0 / num_steps * var_incr
      self.var_incr_second_mom = self.var_incr_second_mom + 1.0 / num_steps * var_incr * var_incr
      self.cross_first_mom = self.cross_first_mom + 1.0 / num_steps * asset_incr * var_incr
  \<close>
  The first statement already divides by \<open>num_steps\<close>, so a zero \<open>num_steps\<close> raises
  before any field changes.
\<close>

definition Correlation_update_statistics ::
  "heston_correlation \<Rightarrow> real \<Rightarrow> real \<Rightarrow> int \<Rightarrow> error + heston_correlation" where
  "Correlation_update_statistics self asset_incr var_incr num_steps =
     (case py_div 1 (of_int num_steps) of
        Inl e \<Rightarrow> Inl e
      | Inr w \<Rightarrow>
          Inr (self\<lparr>log_asset_incr_first_mom := log_asset_incr_first_mom self + w * asset_incr,
                    log_asset_incr_second_mom :=
                      log_asset_incr_second_mom self + w * asset_incr * asset_incr,
                    var_incr_first_mom := var_incr_first_mom self + w * var_incr,
                    var_incr_second_mom := var_incr_second_mom self + w * var_incr * var_incr,
                    cross_first_mom := cross_first_mom self + w * asset_incr * var_incr\<rparr>))"

text \<open>
  \<^verbatim>\<open>
  def _calculate_correlation(self):
      self.num_paths = self.num_paths + 1
      asset_incr_stdev = math.sqrt(self.log_asset_incr_second_mom
                                   - self.log_asset_incr_first_mom * self.log_asset_incr_first_mom)
      var_incr_stdev = math.sqrt(self.var_incr_second_mom
                                 - self.var_incr_first_mom * self.var_incr_first_mom)
      cov = self.cross_first_mom - self.log_asset_incr_first_mom * self.var_incr_first_mom
      return cov / (asset_incr_stdev * var_incr_stdev)
  \<close>
\<close>

definition Correlation_calculate_correlation ::
  "heston_correlation \<Rightarrow> (error + real) \<times> heston_correlation" where
  "Correlation_calculate_correlation self =
     (let self1 = self\<lparr>num_paths := num_paths self + 1\<rparr> in
      case math_sqrt (log_asset_incr_second_mom self1
                      - log_asset_incr_first_mom self1 * log_asset_incr_first_mom self1) of
        Inl e \<Rightarrow> (Inl e, self1)
      | Inr asset_incr_stdev \<Rightarrow>
          (case math_sqrt (var_incr_second_mom self1
                           - var_incr_first_mom self1 * var_incr_first_mom self1) of
             Inl e \<Rightarrow> (Inl e, self1)
           | Inr var_incr_stdev \<Rightarrow>
               (let cov = cross_first_mom self1
                          - log_asset_incr_first_mom self1 * var_incr_first_mom self1
                in (py_div cov (asset_incr_stdev * var_incr_stdev), self1))))"

text \<open>
  \<^verbatim>\<open>
  def simulate_stock(self, spot, maturity, num_steps):
      self._clear_statistics()
      dt = maturity / num_steps
      var_prev = self.initial_variance
      log_asset_prev = math.log(spot)
      for i in range(num_steps):
          randn_vol = sc.randn()
          randn_spot = self.rho * randn_vol + math.sqrt(1.0 - self.rho * self.rho) * sc.randn()
          var_next = self._simulate_variance_next_step(var_prev, dt, randn_vol)
          log_asset_next = self._simulate_log_asset_next_step(log_asset_prev, var_prev, dt, randn_spot)
          self._update_statistics(log_asset_next - log_asset_prev, var_next - var_prev, num_steps)
          log_asset_prev = log_asset_next
          var_prev = var_next
      corr = self._calculate_correlation()
      self.avg_correlation = (self.avg_correlation * (self.num_paths - 1) + corr) / self.num_paths
      return math.exp(log_asset_next)
  \<close>
  The class overrides \<open>simulate_stock\<close>; the two steps are those of the full truncation
  scheme.
\<close>

fun Correlation_simulate_loop ::
  "real \<Rightarrow> int \<Rightarrow> nat \<Rightarrow> heston_correlation \<Rightarrow> real \<Rightarrow> real \<Rightarrow> rng \<Rightarrow>
   (error + real \<times> real) \<times> heston_correlation \<times> rng" where
  "Correlation_simulate_loop dt num_steps 0 self var_prev log_asset_prev g =
     (Inr (log_asset_prev, var_prev), self, g)"
| "Correlation_simulate_loop dt num_steps (Suc n) self var_prev log_asset_prev g =
     (let (randn_vol, g1) = sc_randn g in
      case math_sqrt (1 - rho self * rho self) of
        Inl e \<Rightarrow> (Inl e, self, g1)
      | Inr sq \<Rightarrow>
          (let (z, g2) = sc_randn g1;
               randn_spot = rho self * randn_vol + sq * z
           in case Heston_Full_Truncation_simulate_variance_next_step self var_prev dt randn_vol of
                Inl e \<Rightarrow> (Inl e, self, g2)
              | Inr var_next \<Rightarrow>
                  (case Heston_Full_Truncation_simulate_log_asset_next_step self log_asset_prev
                          var_prev dt randn_spot of
                     Inl e \<Rightarrow> (Inl e, self, g2)
                   | Inr log_asset_next \<Rightarrow>
                       (case Correlation_update_statistics self
                               (log_asset_next - log_asset_prev) (var_next - var_prev) num_steps of
                          Inl e \<Rightarrow> (Inl e, self, g2)
                        | Inr self1 \<Rightarrow>
                            Correlation_simulate_loop dt num_steps n self1 var_next
                              log_asset_next g2))))"

definition Correlation_simulate_stock ::
  "heston_correlation \<Rightarrow> real \<Rightarrow> real \<Rightarrow> int \<Rightarrow> rng \<Rightarrow>
   (error + real) \<times> heston_correlation \<times> rng" where
  "Correlation_simulate_stock self0 spot maturity num_steps g =
     (let self = Correlation_clear_statistics self0 in
      case py_div maturity (of_int num_steps) of
        Inl e \<Rightarrow> (Inl e, self, g)
      | Inr dt \<Rightarrow>
          (case math_log spot of
             Inl e \<Rightarrow> (Inl e, self, g)
           | Inr log_asset_prev \<Rightarrow>
               (case Correlation_simulate_loop dt num_steps (nat num_steps) self
                       (initial_variance self) log_asset_prev g of
                  (Inl e, self1, g') \<Rightarrow> (Inl e, self1, g')
                | (Inr (log_asset_next, var_next), self1, g') \<Rightarrow>
                    (case Correlation_calculate_correlation self1 of
                       (Inl e, self2) \<Rightarrow> (Inl e, self2, g')
                     | (Inr corr, self2) \<Rightarrow>
                         (case py_div (avg_correlation self2 * (of_int (num_paths self2) - 1) + corr)
                                 (of_int (num_paths self2)) of
                            Inl e \<Rightarrow> (Inl e, self2, g')
                          | Inr avg \<Rightarrow>
                              (let self3 = self2\<lparr>avg_correlation := avg\<rparr> in
                               if num_steps \<le> 0 then (Inl UnboundLocalError, self3, g')
                               else (Inr (exp log_asset_next), self3, g')))))))"

section \<open>The increments of a path and the instances used below\<close>







definition bad_rho_measured :: heston_correlation where
  "bad_rho_measured = \<lparr>mu = 0, kappa = 0, theta = 0, omega = 1, rho = 2,
     initial_variance = 1, num_paths = 0, avg_correlation = 0,
     log_asset_incr_first_mom = 0, log_asset_incr_second_mom = 0,
     var_incr_first_mom = 0, var_incr_second_mom = 0, cross_first_mom = 0\<rparr>"

section \<open>Helper facts about the loop of \<open>simulate_stock\<close>\<close>

lemma Heston_Absorption_step_counter:
  "number_of_negative_variances
     (snd (Heston_Absorption_simulate_variance_next_step self var_prev dt z)) =
   number_of_negative_variances self + (if var_prev > 0 then 1 else 0)"
  by (simp add: Heston_Absorption_simulate_variance_next_step_def Let_def split: sum.splits)

lemma Heston_Absorption_loop_counter:
  "number_of_negative_variances self \<le>
     number_of_negative_variances
       (fst (snd (Heston_simulate_loop Heston_Absorption_simulate_variance_next_step lstep
                    dt n self v l g))) \<and>
   number_of_negative_variances
     (fst (snd (Heston_simulate_loop Heston_Absorption_simulate_variance_next_step lstep
                  dt n self v l g)))
   \<le> number_of_negative_variances self + int n"
proof (induction n arbitrary: self v l g)
  case 0
  then show ?case by simp
next
  case (Suc n)
  obtain r self1 where st:
    "Heston_Absorption_simulate_variance_next_step self v dt (shd g) = (r, self1)"
    by (cases "Heston_Absorption_simulate_variance_next_step self v dt (shd g)")
  have c: "number_of_negative_variances self \<le> number_of_negative_variances self1"
    "number_of_negative_variances self1 \<le> number_of_negative_variances self + 1"
    using Heston_Absorption_step_counter [of self v dt "shd g"] st
    by (simp_all split: if_splits)
  show ?case
  proof (cases "math_sqrt (1 - rho self * rho self)")
    case (Inl e)
    then show ?thesis by (simp add: sc_randn_def)
  next
    case sq: (Inr sq)
    show ?thesis
    proof (cases r)
      case (Inl e)
      with sq st c show ?thesis by (simp add: sc_randn_def)
    next
      case vn: (Inr var_next)
      show ?thesis
      proof (cases "lstep self1 l v dt (rho self * shd g + sq * shd (stl g))")
        case (Inl e)
        with sq st vn c show ?thesis by (simp add: sc_randn_def)
      next
        case (Inr log_asset_next)
        with sq st vn c Suc.IH [of self1 var_next log_asset_next "stl (stl g)"]
        show ?thesis by (simp add: sc_randn_def)
      qed
    qed
  qed
qed

lemma Heston_simulate_loop_bad_rho:
  assumes "1 < \<bar>rho self\<bar>"
  shows "Heston_simulate_loop vstep lstep dt (Suc n) self v l g = (Inl ValueError, self, stl g)"
proof -
  have "1 < rho self * rho self"
    using assms by (metis abs_mult_self_eq less_1_mult)
  then show ?thesis
    by (simp add: math_sqrt_def sc_randn_def)
qed

lemma rho_square_le_one: "- 1 \<le> (r::real) \<Longrightarrow> r \<le> 1 \<Longrightarrow> r * r \<le> 1"
  by (metis abs_le_iff abs_mult_self_eq minus_le_iff mult_le_one abs_ge_zero mult.commute)

lemma Heston_Absorption_step_returns:
  assumes "0 \<le> dt"
  shows "\<exists>V self1. Heston_Absorption_simulate_variance_next_step self v dt z = (Inr V, self1) \<and>
           0 \<le> V \<and> rho self1 = rho self"
proof -
  have "\<not> max v 0 * dt < 0"
    using assms by (simp add: not_less)
  then show ?thesis
    by (simp add: Heston_Absorption_simulate_variance_next_step_def math_sqrt_def Let_def)
qed

lemma Heston_Absorption_loop_returns:
  assumes "rho self * rho self \<le> 1" "0 \<le> dt" "0 \<le> v"
  shows "\<exists>L V self' g'.
           Heston_simulate_loop Heston_Absorption_simulate_variance_next_step
             Heston_Absorption_simulate_log_asset_next_step dt n self v l g =
             (Inr (L, V), self', g') \<and> 0 \<le> V"
  using assms
proof (induction n arbitrary: self v l g)
  case 0
  then show ?case by simp
next
  case (Suc n)
  obtain V self1 where st:
    "Heston_Absorption_simulate_variance_next_step self v dt (shd g) = (Inr V, self1)"
    "0 \<le> V" "rho self1 = rho self"
    using Heston_Absorption_step_returns [OF Suc.prems(2)] by blast
  have sq: "math_sqrt (1 - rho self * rho self) = Inr (sqrt (1 - rho self * rho self))"
    using Suc.prems(1) by (simp add: math_sqrt_def)
  have "\<not> v * dt < 0"
    using Suc.prems(2,3) by (simp add: not_less)
  then obtain L where lg:
    "Heston_Absorption_simulate_log_asset_next_step self1 l v dt
       (rho self * shd g + sqrt (1 - rho self * rho self) * shd (stl g)) = Inr L"
    by (simp add: Heston_Absorption_simulate_log_asset_next_step_def
        Heston_simulate_log_asset_next_step_def math_sqrt_def)
  have "rho self1 * rho self1 \<le> 1"
    using st(3) Suc.prems(1) by simp
  from Suc.IH [OF this Suc.prems(2) st(2), of L "stl (stl g)"] st sq lg
  show ?case
    by (simp add: sc_randn_def)
qed

lemma Full_Truncation_variance_step_returns:
  assumes "0 \<le> dt"
  shows "\<exists>V. Heston_Full_Truncation_simulate_variance_next_step self v dt z = Inr V"
proof -
  have "\<not> max v 0 * dt < 0"
    using assms by (simp add: not_less)
  then show ?thesis
    by (simp add: Heston_Full_Truncation_simulate_variance_next_step_def math_sqrt_def Let_def)
qed

lemma Full_Truncation_log_asset_step_returns:
  assumes "0 \<le> dt"
  shows "\<exists>L. Heston_Full_Truncation_simulate_log_asset_next_step self l v dt z = Inr L"
proof -
  have "\<not> max v 0 * dt < 0"
    using assms by (simp add: not_less)
  then show ?thesis
    by (simp add: Heston_Full_Truncation_simulate_log_asset_next_step_def math_sqrt_def Let_def)
qed

lemma Full_Truncation_loop_returns:
  assumes "rho self * rho self \<le> 1" "0 \<le> dt"
  shows "\<exists>L V. Heston_simulate_loop
           (without_update Heston_Full_Truncation_simulate_variance_next_step)
           Heston_Full_Truncation_simulate_log_asset_next_step dt n self v l g =
           (Inr (L, V), self, sdrop (2 * n) g)"
proof (induction n arbitrary: v l g)
  case 0
  then show ?case by simp
next
  case (Suc n)
  obtain V where st:
    "Heston_Full_Truncation_simulate_variance_next_step self v dt (shd g) = Inr V"
    using Full_Truncation_variance_step_returns [OF assms(2)] by blast
  have sq: "math_sqrt (1 - rho self * rho self) = Inr (sqrt (1 - rho self * rho self))"
    using assms(1) by (simp add: math_sqrt_def)
  obtain L where lg:
    "Heston_Full_Truncation_simulate_log_asset_next_step self l v dt
       (rho self * shd g + sqrt (1 - rho self * rho self) * shd (stl g)) = Inr L"
    using Full_Truncation_log_asset_step_returns [OF assms(2)] by blast
  from Suc.IH [of V L "stl (stl g)"] st sq lg
  show ?case
    by (simp add: sc_randn_def without_update_def [abs_def])
qed

lemma realisations_spec:
  "realisations sim model spot strike maturity num_steps n g =
     (case spec_terminal_values sim model spot maturity num_steps n g of
        (Inl e, model', g') \<Rightarrow> (Inl e, model', g')
      | (Inr ts, model', g') \<Rightarrow> (Inr (map (spec_payoff strike) ts), model', g'))"
  by (induction n arbitrary: model g) (auto simp: spec_payoff_def split: prod.splits sum.splits)

lemma spec_terminal_values_length:
  "spec_terminal_values sim model spot maturity num_steps n g = (Inr ts, model', g') \<Longrightarrow>
   length ts = n"
  by (induction n arbitrary: model g ts) (auto split: prod.splits sum.splits)

lemma three_exp_minus_two: "3 * exp (- 2 :: real) \<le> 1"
proof -
  have "1 + 2 \<le> exp (2::real)"
    by (rule exp_ge_add_one_self)
  then have "3 * exp (- 2 :: real) \<le> exp 2 * exp (- 2)"
    by (intro mult_right_mono) simp_all
  also have "\<dots> = 1"
    by (simp flip: exp_add)
  finally show ?thesis .
qed

section \<open>Helper facts about the correlation measurement\<close>























lemma sqrt_nine_hundredths: "sqrt (9 / 100) = 3 / 10"
  by (rule real_sqrt_unique) (simp_all add: power2_eq_square)




lemma Correlation_simulate_loop_bad_rho:
  assumes "1 < \<bar>rho self\<bar>"
  shows "Correlation_simulate_loop dt N (Suc n) self v l g = (Inl ValueError, self, stl g)"
proof -
  have "1 < rho self * rho self"
    using assms by (metis abs_mult_self_eq less_1_mult)
  then show ?thesis
    by (simp add: math_sqrt_def sc_randn_def)
qed

lemma simulate_stock_with_bad_rho:
  assumes "1 < \<bar>rho self\<bar>" "0 < spot" "1 \<le> num_steps"
  shows "Heston_simulate_stock_with vstep lstep self spot maturity num_steps g =
    (Inl ValueError, self, stl g)"
proof -
  obtain n where n: "nat num_steps = Suc n"
    using assms(3) by (cases "nat num_steps") auto
  show ?thesis
    using assms(2,3) Heston_simulate_loop_bad_rho [OF assms(1)]
    by (simp add: Heston_simulate_stock_with_def py_div_def math_log_def n)
qed

lemma Correlation_simulate_stock_bad_rho:
  assumes "1 < \<bar>rho c\<bar>" "0 < spot" "1 \<le> num_steps"
  shows "Correlation_simulate_stock c spot maturity num_steps g =
    (Inl ValueError, Correlation_clear_statistics c, stl g)"
proof -
  obtain n where n: "nat num_steps = Suc n"
    using assms(3) by (cases "nat num_steps") auto
  have "1 < \<bar>rho (Correlation_clear_statistics c)\<bar>"
    using assms(1) by (simp add: Correlation_clear_statistics_def)
  from Correlation_simulate_loop_bad_rho [OF this] show ?thesis
    using assms(2,3)
    by (simp add: Correlation_simulate_stock_def py_div_def math_log_def n Let_def)
qed

section \<open>The negative-variance counter of the absorption scheme\<close>

text \<open>
  C1. The claim: the counter is incremented exactly at the steps whose previous variance
  is positive and whose raw updated variance is negative, and is left unchanged whenever
  the raw value is non-negative. The code tests \<open>var_prev > 0.0\<close> and nothing else:
  for the notebook's \<open>heston_abs\<close>, previous variance 0.09, \<open>dt = 1\<close> and a draw of 1
  the raw variance is \<open>0.39\<close>, which is not negative, and the counter goes from 0 to 1.
\<close>

theorem Heston_Absorption_counts_positive_previous_variance:
  "number_of_negative_variances heston_abs = 0 \<and>
   Heston_Absorption_raw_variance heston_abs (9 / 100) 1 1 = 39 / 100 \<and>
   Heston_Absorption_simulate_variance_next_step heston_abs (9 / 100) 1 1 =
     (Inr (39 / 100), heston_abs\<lparr>number_of_negative_variances := 1\<rparr>)"
  by (simp add: Heston_Absorption_raw_variance_def
      Heston_Absorption_simulate_variance_next_step_def heston_abs_def math_sqrt_def Let_def
      sqrt_nine_hundredths)

text \<open>
  C2, as stated, fails: with \<open>omega = 0\<close>, \<open>kappa = 2\<close>, \<open>theta = 0\<close>, initial
  variance 1 and one step of size 1, the raw variance is \<open>(1 - 2) * 1 = -1\<close> and the
  counter is 1 after the run.
\<close>

theorem Heston_Absorption_counter_omega_zero_counterexample:
  "omega (\<lparr>mu = 0, kappa = 2, theta = 0, omega = 0, rho = 0, initial_variance = 1,
            number_of_negative_variances = 0\<rparr> :: heston_absorption) = 0 \<and>
   Heston_Absorption_raw_variance
     \<lparr>mu = 0, kappa = 2, theta = 0, omega = 0, rho = 0, initial_variance = 1,
      number_of_negative_variances = 0\<rparr> 1 1 0 = - 1 \<and>
   Heston_Absorption_simulate_stock
     \<lparr>mu = 0, kappa = 2, theta = 0, omega = 0, rho = 0, initial_variance = 1,
      number_of_negative_variances = 0\<rparr> 1 1 1 (sconst 0) =
     (Inr (exp (- 1 / 2)),
      \<lparr>mu = 0, kappa = 2, theta = 0, omega = 0, rho = 0, initial_variance = 1,
       number_of_negative_variances = 1\<rparr>, sconst 0)"
  by (simp add: Heston_Absorption_raw_variance_def Heston_Absorption_simulate_stock_def
      Heston_simulate_stock_with_def py_div_def math_log_def
      Heston_Absorption_simulate_variance_next_step_def
      Heston_Absorption_simulate_log_asset_next_step_def
      Heston_simulate_log_asset_next_step_def math_sqrt_def sc_randn_def Let_def)

text \<open>
  C2, amended. Over any call of \<open>simulate_stock\<close> of the absorption scheme, whatever
  its arguments and whether it returns or raises, the counter does not decrease and
  grows by at most the number of steps; a single variance step adds 0 or 1.
\<close>

theorem Heston_Absorption_counter_nondecreasing:
  "number_of_negative_variances self \<le>
     number_of_negative_variances
       (fst (snd (Heston_Absorption_simulate_stock self spot maturity num_steps g))) \<and>
   number_of_negative_variances
     (fst (snd (Heston_Absorption_simulate_stock self spot maturity num_steps g)))
   \<le> number_of_negative_variances self + max num_steps 0 \<and>
   (number_of_negative_variances
      (snd (Heston_Absorption_simulate_variance_next_step self var_prev dt z)) =
      number_of_negative_variances self \<or>
    number_of_negative_variances
      (snd (Heston_Absorption_simulate_variance_next_step self var_prev dt z)) =
      number_of_negative_variances self + 1)"
proof -
  have run: "number_of_negative_variances self \<le>
      number_of_negative_variances
        (fst (snd (Heston_Absorption_simulate_stock self spot maturity num_steps g))) \<and>
    number_of_negative_variances
      (fst (snd (Heston_Absorption_simulate_stock self spot maturity num_steps g)))
    \<le> number_of_negative_variances self + max num_steps 0"
    using Heston_Absorption_loop_counter
      [of self Heston_Absorption_simulate_log_asset_next_step
        "maturity / of_int num_steps" "nat num_steps" "initial_variance self" "ln spot" g]
    by (auto simp: Heston_Absorption_simulate_stock_def Heston_simulate_stock_with_def
        py_div_def math_log_def split: sum.splits prod.splits if_splits)
  have step: "number_of_negative_variances
      (snd (Heston_Absorption_simulate_variance_next_step self var_prev dt z)) =
      number_of_negative_variances self \<or>
    number_of_negative_variances
      (snd (Heston_Absorption_simulate_variance_next_step self var_prev dt z)) =
      number_of_negative_variances self + 1"
    by (simp add: Heston_Absorption_step_counter)
  from run step show ?thesis by blast
qed

section \<open>The log-asset transition\<close>

text \<open>
  C3, as stated, fails for the absorption scheme: its log-asset step is the inherited
  one, which takes the square root of the unclamped \<open>var_prev * dt\<close> and raises on a
  negative previous variance.
\<close>

theorem Heston_Absorption_log_asset_step_counterexample:
  "Heston_Absorption_simulate_log_asset_next_step heston_abs 0 (- 1) 1 0 = Inl ValueError"
  by (simp add: Heston_Absorption_simulate_log_asset_next_step_def
      Heston_simulate_log_asset_next_step_def math_sqrt_def)

text \<open>
  C3, amended. For \<open>dt > 0\<close>: the log-asset step of the naive scheme and of the
  absorption scheme uses the previous variance as it is; it raises the math domain error
  when that variance is negative and otherwise returns
  \<open>L + (mu - 0.5 * V) * dt + sqrt (V * dt) * z\<close> (there \<open>V = max V 0\<close>). The step
  of the full truncation scheme uses \<open>max V 0\<close> and returns for every \<open>V\<close>.
\<close>

theorem log_asset_step_by_scheme:
  assumes "0 < dt"
  shows "Heston_simulate_log_asset_next_step self L V dt z =
           (if V < 0 then Inl ValueError
            else Inr (L + (mu self - 0.5 * V) * dt + sqrt (V * dt) * z)) \<and>
         Heston_Absorption_simulate_log_asset_next_step a L V dt z =
           (if V < 0 then Inl ValueError
            else Inr (L + (mu a - 0.5 * max V 0) * dt + sqrt (max V 0 * dt) * z)) \<and>
         Heston_Full_Truncation_simulate_log_asset_next_step self L V dt z =
           Inr (L + (mu self - 0.5 * max V 0) * dt + sqrt (max V 0 * dt) * z)"
proof -
  have neg: "V < 0 \<Longrightarrow> V * dt < 0"
    using assms by (simp add: mult_neg_pos)
  have pos: "\<not> V < 0 \<Longrightarrow> \<not> V * dt < 0"
    using assms by (simp add: not_less)
  have clamped: "\<not> max V 0 * dt < 0"
    using assms by (simp add: not_less)
  show ?thesis
    using neg pos clamped
    by (auto simp: Heston_simulate_log_asset_next_step_def
        Heston_Absorption_simulate_log_asset_next_step_def
        Heston_Full_Truncation_simulate_log_asset_next_step_def math_sqrt_def Let_def max_def)
qed

theorem log_asset_step_by_scheme_witness:
  "(0::real) < 1 \<and>
   Heston_simulate_log_asset_next_step heston_ft 0 4 1 1 = Inr (5 / 100) \<and>
   Heston_Absorption_simulate_log_asset_next_step heston_abs 0 4 1 1 = Inr (5 / 100) \<and>
   Heston_Full_Truncation_simulate_log_asset_next_step heston_ft 0 (- 4) 1 1 = Inr (5 / 100)"
proof -
  have dt: "(0::real) < 1"
    by simp
  show ?thesis
    using log_asset_step_by_scheme [OF dt, where self = heston_ft and a = heston_abs
        and L = 0 and V = 4 and z = 1]
      log_asset_step_by_scheme [OF dt, where self = heston_ft and a = heston_abs
        and L = 0 and V = "- 4" and z = 1]
    by (simp add: heston_ft_def heston_abs_def)
qed

section \<open>Construction\<close>

text \<open>
  C4, as stated, fails: no constructor checks its arguments. A Black-Scholes model with
  volatility \<open>-1\<close> and a Heston model with negative \<open>kappa\<close>, \<open>theta\<close>, \<open>omega\<close>
  and initial variance and with correlation 2 are constructed.
\<close>

theorem init_out_of_range_counterexample:
  "BlackScholes_init 0 (- 1) = Inr \<lparr>bs_mu = 0, vol = - 1\<rparr> \<and>
   Heston_init 0 (- 1) (- 1) (- 1) 2 (- 1) =
     Inr \<lparr>mu = 0, kappa = - 1, theta = - 1, omega = - 1, rho = 2, initial_variance = - 1\<rparr>"
  by (simp add: BlackScholes_init_def Heston_init_def)

text \<open>
  C4, amended. Every constructor (of \<open>BlackScholes\<close>, of \<open>Heston\<close>, which
  \<open>Heston_Full_Truncation\<close> inherits, of \<open>Heston_Absorption\<close> and of the full
  truncation model with correlation measurement) succeeds on all arguments and stores
  them unchanged. An out-of-range value surfaces later: a correlation with
  \<open>\<bar>rho\<bar> > 1\<close> makes \<open>simulate_stock\<close> of every Heston scheme (naive, absorption,
  full truncation, full truncation with correlation measurement) raise the math domain
  error in the first step, after one draw, for a positive spot and at least one step.
  The first conjunct on \<open>simulate_stock\<close> is for the inherited method with any pair of
  steps; the next three are its instances, the last is the overriding method.
\<close>

theorem init_accepts_every_argument:
  "BlackScholes_init m s = Inr \<lparr>bs_mu = m, vol = s\<rparr> \<and>
   Heston_init m k t w r v0 =
     Inr \<lparr>mu = m, kappa = k, theta = t, omega = w, rho = r, initial_variance = v0\<rparr> \<and>
   Heston_Absorption_init m k t w r v0 =
     Inr \<lparr>mu = m, kappa = k, theta = t, omega = w, rho = r, initial_variance = v0,
          number_of_negative_variances = 0\<rparr> \<and>
   Correlation_init m k t w r v0 =
     Inr \<lparr>mu = m, kappa = k, theta = t, omega = w, rho = r, initial_variance = v0,
          num_paths = 0, avg_correlation = 0,
          log_asset_incr_first_mom = 0, log_asset_incr_second_mom = 0,
          var_incr_first_mom = 0, var_incr_second_mom = 0, cross_first_mom = 0\<rparr> \<and>
   (1 < \<bar>rho self\<bar> \<and> 0 < spot \<and> 1 \<le> num_steps \<longrightarrow>
      Heston_simulate_stock_with vstep lstep self spot maturity num_steps g =
        (Inl ValueError, self, stl g)) \<and>
   (1 < \<bar>rho h\<bar> \<and> 0 < spot \<and> 1 \<le> num_steps \<longrightarrow>
      Heston_simulate_stock h spot maturity num_steps g = (Inl ValueError, h, stl g)) \<and>
   (1 < \<bar>rho a\<bar> \<and> 0 < spot \<and> 1 \<le> num_steps \<longrightarrow>
      Heston_Absorption_simulate_stock a spot maturity num_steps g =
        (Inl ValueError, a, stl g)) \<and>
   (1 < \<bar>rho h\<bar> \<and> 0 < spot \<and> 1 \<le> num_steps \<longrightarrow>
      Heston_Full_Truncation_simulate_stock h spot maturity num_steps g =
        (Inl ValueError, h, stl g)) \<and>
   (1 < \<bar>rho c\<bar> \<and> 0 < spot \<and> 1 \<le> num_steps \<longrightarrow>
      Correlation_simulate_stock c spot maturity num_steps g =
        (Inl ValueError, Correlation_clear_statistics c, stl g))"
proof -
  have inits:
    "BlackScholes_init m s = Inr \<lparr>bs_mu = m, vol = s\<rparr>"
    "Heston_init m k t w r v0 =
       Inr \<lparr>mu = m, kappa = k, theta = t, omega = w, rho = r, initial_variance = v0\<rparr>"
    "Heston_Absorption_init m k t w r v0 =
       Inr \<lparr>mu = m, kappa = k, theta = t, omega = w, rho = r, initial_variance = v0,
            number_of_negative_variances = 0\<rparr>"
    "Correlation_init m k t w r v0 =
       Inr \<lparr>mu = m, kappa = k, theta = t, omega = w, rho = r, initial_variance = v0,
            num_paths = 0, avg_correlation = 0,
            log_asset_incr_first_mom = 0, log_asset_incr_second_mom = 0,
            var_incr_first_mom = 0, var_incr_second_mom = 0, cross_first_mom = 0\<rparr>"
    by (simp_all add: BlackScholes_init_def Heston_init_def Heston_Absorption_init_def
        Correlation_init_def Correlation_clear_statistics_def)
  have generic: "1 < \<bar>rho self\<bar> \<and> 0 < spot \<and> 1 \<le> num_steps \<longrightarrow>
      Heston_simulate_stock_with vstep lstep self spot maturity num_steps g =
        (Inl ValueError, self, stl g)"
    by (simp add: simulate_stock_with_bad_rho)
  have naive: "1 < \<bar>rho h\<bar> \<and> 0 < spot \<and> 1 \<le> num_steps \<longrightarrow>
      Heston_simulate_stock h spot maturity num_steps g = (Inl ValueError, h, stl g)"
    unfolding Heston_simulate_stock_def by (simp add: simulate_stock_with_bad_rho)
  have absorption: "1 < \<bar>rho a\<bar> \<and> 0 < spot \<and> 1 \<le> num_steps \<longrightarrow>
      Heston_Absorption_simulate_stock a spot maturity num_steps g =
        (Inl ValueError, a, stl g)"
    unfolding Heston_Absorption_simulate_stock_def by (simp add: simulate_stock_with_bad_rho)
  have truncation: "1 < \<bar>rho h\<bar> \<and> 0 < spot \<and> 1 \<le> num_steps \<longrightarrow>
      Heston_Full_Truncation_simulate_stock h spot maturity num_steps g =
        (Inl ValueError, h, stl g)"
    unfolding Heston_Full_Truncation_simulate_stock_def
    by (simp add: simulate_stock_with_bad_rho)
  have measured: "1 < \<bar>rho c\<bar> \<and> 0 < spot \<and> 1 \<le> num_steps \<longrightarrow>
      Correlation_simulate_stock c spot maturity num_steps g =
        (Inl ValueError, Correlation_clear_statistics c, stl g)"
    by (simp add: Correlation_simulate_stock_bad_rho)
  from inits generic naive absorption truncation measured show ?thesis
    by (intro conjI)
qed

theorem init_accepts_every_argument_witness:
  "(1::real) < \<bar>2\<bar> \<and> (0::real) < 100 \<and> (1::int) \<le> 10 \<and>
   rho bad_rho_measured = 2 \<and>
   Heston_init 0 0 0 0 2 0 =
     Inr \<lparr>mu = 0, kappa = 0, theta = 0, omega = 0, rho = 2, initial_variance = 0\<rparr> \<and>
   Heston_simulate_stock
     \<lparr>mu = 0, kappa = 0, theta = 0, omega = 0, rho = 2, initial_variance = 0\<rparr>
     100 5 10 (sconst 0) =
     (Inl ValueError,
      \<lparr>mu = 0, kappa = 0, theta = 0, omega = 0, rho = 2, initial_variance = 0\<rparr>, sconst 0) \<and>
   Heston_Absorption_simulate_stock
     \<lparr>mu = 0, kappa = 0, theta = 0, omega = 0, rho = 2, initial_variance = 0,
      number_of_negative_variances = 0\<rparr>
     100 5 10 (sconst 0) =
     (Inl ValueError,
      \<lparr>mu = 0, kappa = 0, theta = 0, omega = 0, rho = 2, initial_variance = 0,
       number_of_negative_variances = 0\<rparr>, sconst 0) \<and>
   Heston_Full_Truncation_simulate_stock
     \<lparr>mu = 0, kappa = 0, theta = 0, omega = 0, rho = 2, initial_variance = 0\<rparr>
     100 5 10 (sconst 0) =
     (Inl ValueError,
      \<lparr>mu = 0, kappa = 0, theta = 0, omega = 0, rho = 2, initial_variance = 0\<rparr>, sconst 0) \<and>
   Correlation_simulate_stock bad_rho_measured 100 5 10 (sconst 0) =
     (Inl ValueError, Correlation_clear_statistics bad_rho_measured, sconst 0)"
  using init_accepts_every_argument [where m = 0 and k = 0 and t = 0 and w = 0 and r = 2
      and ?v0.0 = 0 and spot = 100 and num_steps = 10 and maturity = 5 and g = "sconst 0"
      and self = "\<lparr>mu = 0, kappa = 0, theta = 0, omega = 0, rho = 2, initial_variance = 0\<rparr>"
      and h = "\<lparr>mu = 0, kappa = 0, theta = 0, omega = 0, rho = 2, initial_variance = 0\<rparr>"
      and a = "\<lparr>mu = 0, kappa = 0, theta = 0, omega = 0, rho = 2, initial_variance = 0,
        number_of_negative_variances = 0\<rparr>"
      and c = bad_rho_measured
      and vstep = "without_update Heston_Full_Truncation_simulate_variance_next_step"
      and lstep = Heston_Full_Truncation_simulate_log_asset_next_step]
  by (simp add: bad_rho_measured_def)

section \<open>The full truncation variance transition\<close>

text \<open>
  C7, as stated, fails: the claim is for every step size, and for a positive previous
  variance and a negative step size the square root raises.
\<close>

theorem Heston_Full_Truncation_variance_step_counterexample:
  "Heston_Full_Truncation_simulate_variance_next_step heston_ft 1 (- 1) 0 = Inl ValueError"
  by (simp add: Heston_Full_Truncation_simulate_variance_next_step_def math_sqrt_def)

text \<open>
  C7, amended. The full truncation variance step raises the math domain error exactly
  when the previous variance is positive and the step size negative. In every other
  case, so for every previous variance when \<open>dt \<ge> 0\<close>, it returns
  \<open>V - kappa * dt * (max V 0 - theta) + omega * sqrt (max V 0 * dt) * z\<close>: the update
  is applied to the unclamped \<open>V\<close>, and for \<open>V \<le> 0\<close> the result is
  \<open>V + kappa * dt * theta\<close>, which may again be negative.
\<close>

theorem Heston_Full_Truncation_variance_step:
  "Heston_Full_Truncation_simulate_variance_next_step self V dt z =
     (if 0 < V \<and> dt < 0 then Inl ValueError
      else Inr (V - kappa self * dt * (max V 0 - theta self)
                + omega self * sqrt (max V 0 * dt) * z)) \<and>
   (V \<le> 0 \<longrightarrow>
      Heston_Full_Truncation_simulate_variance_next_step self V dt z =
        Inr (V + kappa self * dt * theta self))"
proof -
  have "max V 0 * dt < 0 \<longleftrightarrow> 0 < V \<and> dt < 0"
    by (auto simp: max_def mult_less_0_iff)
  then show ?thesis
    by (simp add: Heston_Full_Truncation_simulate_variance_next_step_def math_sqrt_def
        Let_def max_def)
qed

theorem Heston_Full_Truncation_variance_step_witness:
  "(- 1::real) \<le> 0 \<and>
   Heston_Full_Truncation_simulate_variance_next_step heston_ft (- 1) (1 / 2) 1 =
     Inr (- 1 + 9 / 100) \<and>
   Heston_Full_Truncation_simulate_variance_next_step heston_ft 4 1 1 =
     Inr (4 - 2 * (4 - 9 / 100) + 2)"
  using Heston_Full_Truncation_variance_step [of heston_ft "- 1" "1 / 2" 1]
    Heston_Full_Truncation_variance_step [of heston_ft 4 1 1]
  by (simp add: heston_ft_def)

section \<open>The naive variance transition\<close>

text \<open>
  C5. For every step size \<open>dt > 0\<close> and every draw, the naive variance transition
  raises the math domain error when the previous variance is negative, and returns the
  unclamped Euler update when the previous variance is non-negative.
\<close>

theorem Heston_naive_variance_step_domain:
  assumes "0 < dt"
  shows "(var_prev < 0 \<longrightarrow>
            Heston_simulate_variance_next_step self var_prev dt z = Inl ValueError) \<and>
         (0 \<le> var_prev \<longrightarrow>
            Heston_simulate_variance_next_step self var_prev dt z =
              Inr ((1 - kappa self * dt) * var_prev + kappa self * dt * theta self
                   + omega self * sqrt (var_prev * dt) * z))"
proof (intro conjI impI)
  assume "var_prev < 0"
  with assms have "var_prev * dt < 0"
    by (simp add: mult_neg_pos)
  then show "Heston_simulate_variance_next_step self var_prev dt z = Inl ValueError"
    by (simp add: Heston_simulate_variance_next_step_def math_sqrt_def)
next
  assume "0 \<le> var_prev"
  with assms have "\<not> var_prev * dt < 0"
    by (simp add: not_less)
  then show "Heston_simulate_variance_next_step self var_prev dt z =
      Inr ((1 - kappa self * dt) * var_prev + kappa self * dt * theta self
           + omega self * sqrt (var_prev * dt) * z)"
    by (simp add: Heston_simulate_variance_next_step_def math_sqrt_def Let_def)
qed

theorem Heston_naive_variance_step_domain_witness:
  "(0::real) < 1 / 2 \<and> (-1::real) < 0 \<and> (0::real) \<le> 4 \<and>
   Heston_simulate_variance_next_step
     \<lparr>mu = 5 / 100, kappa = 2, theta = 9 / 100, omega = 1, rho = - 3 / 10,
      initial_variance = 9 / 100\<rparr> (-1) (1 / 2) 1 = Inl ValueError \<and>
   Heston_simulate_variance_next_step
     \<lparr>mu = 5 / 100, kappa = 2, theta = 9 / 100, omega = 1, rho = - 3 / 10,
      initial_variance = 9 / 100\<rparr> 4 1 1 = Inr (- 4 + 2 * (9 / 100) + 2)"
proof -
  have a: "(0::real) < 1 / 2" and b: "(0::real) < 1"
    by simp_all
  show ?thesis
    using
      Heston_naive_variance_step_domain [OF a, where var_prev = "-1" and z = 1 and
        self = "\<lparr>mu = 5 / 100, kappa = 2, theta = 9 / 100, omega = 1, rho = - 3 / 10,
          initial_variance = 9 / 100\<rparr>"]
      Heston_naive_variance_step_domain [OF b, where var_prev = 4 and z = 1 and
        self = "\<lparr>mu = 5 / 100, kappa = 2, theta = 9 / 100, omega = 1, rho = - 3 / 10,
          initial_variance = 9 / 100\<rparr>"]
    by simp
qed

section \<open>Absorption and full truncation never leave the domain\<close>

text \<open>
  C6, as stated, fails: the claim constrains the initial variance, the spot, the maturity
  and the number of steps, but not the correlation, and no constructor rejects a
  correlation outside \<open>[-1, 1]\<close>. With \<open>rho = 2\<close> both schemes raise the math
  domain error in \<open>sqrt(1 - rho * rho)\<close>.
\<close>

theorem safe_schemes_bad_rho_counterexample:
  "(0::real) \<le> 9 / 100 \<and> (0::real) < 100 \<and> (0::real) < 5 \<and> (1::int) \<le> 10 \<and>
   fst (Heston_Full_Truncation_simulate_stock
     \<lparr>mu = 5 / 100, kappa = 2, theta = 9 / 100, omega = 1, rho = 2,
      initial_variance = 9 / 100\<rparr> 100 5 10 (sconst 0)) = Inl ValueError \<and>
   fst (Heston_Absorption_simulate_stock
     \<lparr>mu = 5 / 100, kappa = 2, theta = 9 / 100, omega = 1, rho = 2,
      initial_variance = 9 / 100, number_of_negative_variances = 0\<rparr> 100 5 10 (sconst 0)) =
     Inl ValueError"
  by (simp add: Heston_Full_Truncation_simulate_stock_def Heston_Absorption_simulate_stock_def
      Heston_simulate_stock_with_def py_div_def math_log_def math_sqrt_def sc_randn_def
      eval_nat_numeral)

text \<open>
  C6, amended. For a correlation in \<open>[-1, 1]\<close>, a positive spot, a positive maturity,
  at least one step and every sequence of draws, \<open>simulate_stock\<close> of the absorption
  scheme (for a non-negative initial variance) and of the full truncation scheme (for
  any initial variance) returns a terminal value; the full truncation scheme consumes
  two draws per step. In the absorption scheme the variance carried out of every number
  of steps is non-negative.
\<close>

theorem safe_schemes_complete:
  assumes "- 1 \<le> rho a" "rho a \<le> 1" "0 \<le> initial_variance a"
    and "- 1 \<le> rho f" "rho f \<le> 1"
    and "0 < spot" "0 < maturity" "1 \<le> num_steps"
  shows "(\<exists>t a' g'. Heston_Absorption_simulate_stock a spot maturity num_steps g =
            (Inr t, a', g')) \<and>
         (\<exists>t. Heston_Full_Truncation_simulate_stock f spot maturity num_steps g =
            (Inr t, f, sdrop (2 * nat num_steps) g)) \<and>
         (\<forall>n. \<exists>L V a' g'.
            Heston_simulate_loop Heston_Absorption_simulate_variance_next_step
              Heston_Absorption_simulate_log_asset_next_step (maturity / of_int num_steps) n a
              (initial_variance a) (ln spot) g = (Inr (L, V), a', g') \<and> 0 \<le> V)"
proof -
  have dt: "0 \<le> maturity / of_int num_steps"
    using assms(7,8) by simp
  have ra: "rho a * rho a \<le> 1"
    using assms(1,2) by (rule rho_square_le_one)
  have rf: "rho f * rho f \<le> 1"
    using assms(4,5) by (rule rho_square_le_one)
  have loop: "\<exists>L V a' g'.
      Heston_simulate_loop Heston_Absorption_simulate_variance_next_step
        Heston_Absorption_simulate_log_asset_next_step (maturity / of_int num_steps) n a
        (initial_variance a) (ln spot) g = (Inr (L, V), a', g') \<and> 0 \<le> V" for n
    using Heston_Absorption_loop_returns [OF ra dt assms(3)] by blast
  have absorption: "\<exists>t a' g'. Heston_Absorption_simulate_stock a spot maturity num_steps g =
      (Inr t, a', g')"
    using loop [of "nat num_steps"] assms(6,8)
    by (auto simp: Heston_Absorption_simulate_stock_def Heston_simulate_stock_with_def
        py_div_def math_log_def)
  have truncation: "\<exists>t. Heston_Full_Truncation_simulate_stock f spot maturity num_steps g =
      (Inr t, f, sdrop (2 * nat num_steps) g)"
    using Full_Truncation_loop_returns
      [OF rf dt, of "nat num_steps" "initial_variance f" "ln spot" g] assms(6,8)
    by (auto simp: Heston_Full_Truncation_simulate_stock_def Heston_simulate_stock_with_def
        py_div_def math_log_def)
  from absorption truncation loop show ?thesis by blast
qed

theorem safe_schemes_complete_witness:
  "- 1 \<le> rho heston_abs \<and> rho heston_abs \<le> 1 \<and> 0 \<le> initial_variance heston_abs \<and>
   - 1 \<le> rho heston_ft \<and> rho heston_ft \<le> 1 \<and> (0::real) < 100 \<and> (0::real) < 5 \<and>
   (1::int) \<le> 10 \<and>
   (\<exists>t a' g'. Heston_Absorption_simulate_stock heston_abs 100 5 10 (sconst 0) =
      (Inr t, a', g')) \<and>
   (\<exists>t. Heston_Full_Truncation_simulate_stock heston_ft 100 5 10 (sconst 0) =
      (Inr t, heston_ft, sdrop (2 * nat 10) (sconst 0))) \<and>
   (\<forall>n. \<exists>L V a' g'.
      Heston_simulate_loop Heston_Absorption_simulate_variance_next_step
        Heston_Absorption_simulate_log_asset_next_step (5 / of_int 10) n heston_abs
        (initial_variance heston_abs) (ln 100) (sconst 0) = (Inr (L, V), a', g') \<and> 0 \<le> V)"
proof -
  have h: "- 1 \<le> rho heston_abs" "rho heston_abs \<le> 1" "0 \<le> initial_variance heston_abs"
    "- 1 \<le> rho heston_ft" "rho heston_ft \<le> 1" "(0::real) < 100" "(0::real) < 5"
    "(1::int) \<le> 10"
    by (simp_all add: heston_abs_def heston_ft_def)
  from safe_schemes_complete [OF h, of "sconst 0"] h show ?thesis
    by blast
qed

section \<open>The Monte Carlo estimate\<close>

text \<open>
  C8, as stated, fails: the claim is for every model, and a model whose
  \<open>simulate_stock\<close> raises makes the pricer raise too. With the naive Heston scheme
  (\<open>kappa = 0\<close>, \<open>omega = 1\<close>, initial variance 1, two steps of size 1) and a first
  draw of \<open>-2\<close> the variance after the first step is \<open>-1\<close>, the second step raises
  the math domain error, and no pair is returned.
\<close>

theorem price_call_option_failing_model_counterexample:
  "(1::int) \<le> 2 \<and> (1::int) \<le> 1 \<and>
   fst (price_call_option Heston_simulate_stock
     \<lparr>mu = 0, kappa = 0, theta = 0, omega = 1, rho = 0, initial_variance = 1\<rparr>
     1 1 2 2 1 (- 2 ## sconst 0)) = Inl ValueError"
  by (simp add: price_call_option_def Heston_simulate_stock_def Heston_simulate_stock_with_def
      py_div_def math_log_def math_sqrt_def sc_randn_def eval_nat_numeral without_update_def
      Heston_simulate_variance_next_step_def Heston_simulate_log_asset_next_step_def Let_def)

text \<open>
  C8, amended. For every model and \<open>num_paths \<ge> 1\<close>: if each of the \<open>num_paths\<close>
  simulations returns a terminal value, the pricer returns the pair of the mean of the
  payoffs \<open>max(terminal - strike, 0)\<close> and of their standard deviation divided by
  \<open>sqrt(num_paths)\<close>, where the standard deviation is the square root of the mean
  squared deviation (divisor \<open>num_paths\<close>); the model and the generator are left as
  the simulations left them. If a simulation raises, the pricer raises the same error.
\<close>

theorem price_call_option_mean_and_standard_error:
  assumes "1 \<le> paths"
  shows "(spec_terminal_values sim model spot maturity num_steps (nat paths) g =
            (Inr ts, model', g') \<longrightarrow>
          length ts = nat paths \<and>
          price_call_option sim model spot strike maturity num_steps paths g =
            (Inr (sum_list (map (spec_payoff strike) ts) / of_int paths,
                  sqrt (sum_list (map (\<lambda>t. (spec_payoff strike t
                            - sum_list (map (spec_payoff strike) ts) / of_int paths)\<^sup>2) ts)
                        / of_int paths)
                  / sqrt (of_int paths)), model', g')) \<and>
         (spec_terminal_values sim model spot maturity num_steps (nat paths) g =
            (Inl e, model', g') \<longrightarrow>
          price_call_option sim model spot strike maturity num_steps paths g =
            (Inl e, model', g'))"
proof (intro conjI impI)
  assume ts: "spec_terminal_values sim model spot maturity num_steps (nat paths) g =
    (Inr ts, model', g')"
  show len: "length ts = nat paths"
    using ts by (rule spec_terminal_values_length)
  have n: "real (length ts) = of_int paths"
    using len assms by simp
  have sq: "\<not> (of_int paths :: real) < 0" "sqrt (of_int paths) \<noteq> 0"
    using assms by simp_all
  show "price_call_option sim model spot strike maturity num_steps paths g =
      (Inr (sum_list (map (spec_payoff strike) ts) / of_int paths,
            sqrt (sum_list (map (\<lambda>t. (spec_payoff strike t
                      - sum_list (map (spec_payoff strike) ts) / of_int paths)\<^sup>2) ts)
                  / of_int paths)
            / sqrt (of_int paths)), model', g')"
    using ts sq n
    by (simp add: price_call_option_def realisations_spec math_sqrt_def py_div_def
        np_average_def np_std_def Let_def comp_def)
next
  assume "spec_terminal_values sim model spot maturity num_steps (nat paths) g =
    (Inl e, model', g')"
  then show "price_call_option sim model spot strike maturity num_steps paths g =
      (Inl e, model', g')"
    by (simp add: price_call_option_def realisations_spec)
qed

theorem price_call_option_mean_and_standard_error_witness:
  "(1::int) \<le> 2 \<and>
   spec_terminal_values BlackScholes_simulate_stock \<lparr>bs_mu = 1 / 2, vol = 1\<rparr> 3 1 1 (nat 2)
     (0 ## - 2 ## sconst 0) =
     (Inr [3, 3 * exp (- 2)], \<lparr>bs_mu = 1 / 2, vol = 1\<rparr>, sconst 0) \<and>
   price_call_option BlackScholes_simulate_stock \<lparr>bs_mu = 1 / 2, vol = 1\<rparr> 3 1 1 1 2
     (0 ## - 2 ## sconst 0) =
     (Inr (1, 1 / sqrt 2), \<lparr>bs_mu = 1 / 2, vol = 1\<rparr>, sconst 0)"
proof -
  have terminals:
    "spec_terminal_values BlackScholes_simulate_stock \<lparr>bs_mu = 1 / 2, vol = 1\<rparr> 3 1 1 (nat 2)
       (0 ## - 2 ## sconst 0) =
     (Inr [3, 3 * exp (- 2)], \<lparr>bs_mu = 1 / 2, vol = 1\<rparr>, sconst 0)"
    by (simp add: BlackScholes_simulate_stock_def py_div_def BlackScholes_simulate_increment_def
        math_sqrt_def sc_randn_def eval_nat_numeral)
  show ?thesis
    using price_call_option_mean_and_standard_error
      [of 2 BlackScholes_simulate_stock "\<lparr>bs_mu = 1 / 2, vol = 1\<rparr>" 3 1 1
        "0 ## - 2 ## sconst 0" "[3, 3 * exp (- 2)]" "\<lparr>bs_mu = 1 / 2, vol = 1\<rparr>" "sconst 0" 1]
      terminals three_exp_minus_two
    by (simp add: spec_payoff_def max_def power2_eq_square)
qed

section \<open>The diagnostics and the simulated path\<close>




end
